theory Spec2Isabelle
  imports Main
begin

section \<open>The abort-handler launcher of rust/memguard/abort_handler.c\<close>

text \<open>
  The program is two C functions. \<^verbatim>\<open>main\<close> installs \<^verbatim>\<open>abort_handler\<close> for SIGABRT
  with \<^verbatim>\<open>signal\<close>, calls \<^verbatim>\<open>execvp(argv[1], argv + 1)\<close> and, when that returns, calls
  \<^verbatim>\<open>perror("execvp")\<close> and returns 1. \<^verbatim>\<open>abort_handler\<close> prints a report with
  \<^verbatim>\<open>fprintf(stderr, ...)\<close>, using \<^verbatim>\<open>backtrace\<close> and \<^verbatim>\<open>backtrace_symbols\<close>, and calls
  \<^verbatim>\<open>exit(134)\<close>.

  Everything the program does goes through the C library and the kernel. What they
  answer is not in the source, so it is a parameter of the model (the record
  \<open>platform\<close>); the statements of the two functions are the definitions
  \<open>abort_handler\<close> and \<open>main_step\<close>.
\<close>

subsection \<open>Data\<close>

text \<open>A return address, as \<^verbatim>\<open>backtrace\<close> stores it in \<^verbatim>\<open>void *array[100]\<close>.\<close>

type_synonym addr = nat

text \<open>The value of \<^verbatim>\<open>errno\<close> after a failed \<^verbatim>\<open>execvp\<close>.\<close>

datatype errno = ENOENT | ENOEXEC | EACCES | EFAULT | Errno_other nat

text \<open>
  What a call of \<^verbatim>\<open>execvp\<close> does: it replaces the process image and never returns, or
  it returns -1 with \<^verbatim>\<open>errno\<close> set, or (a null or dangling \<^verbatim>\<open>file\<close> pointer, which the C
  library may read) the call itself faults.
\<close>

datatype exec_result = Replaced | Failed errno | Exec_faults

text \<open>The disposition of SIGABRT in the process: default, ignored, or the launcher's handler.\<close>

datatype sighandler = SIG_DFL | SIG_IGN | Abort_handler

text \<open>
  How the process ended: \<^verbatim>\<open>exit(n)\<close> or a return of \<open>n\<close> from \<^verbatim>\<open>main\<close>; killed by the
  default action of a signal; or an invalid memory access of the launcher's own code
  (undefined behaviour in C, a segmentation fault in practice).
\<close>

datatype status = Exited int | Killed int | Faulted

text \<open>
  The answers of the C library and the kernel:
  \<^item> \<open>signal_fails\<close>: \<^verbatim>\<open>signal(SIGABRT, abort_handler)\<close> returns \<^verbatim>\<open>SIG_ERR\<close> and leaves the
    disposition as it was;
  \<^item> \<open>execvp_result file args\<close>: what \<^verbatim>\<open>execvp(file, args)\<close> does (\<open>None\<close> is a null
    \<^verbatim>\<open>file\<close>);
  \<^item> \<open>exec_keeps_handler\<close>: whether a caught signal keeps its handler when the process
    image is replaced (POSIX \<^verbatim>\<open>exec\<close> resets caught signals to the default action, so
    there it is \<open>False\<close>);
  \<^item> \<open>strerror e\<close>: the text \<^verbatim>\<open>perror\<close> prints for \<^verbatim>\<open>errno = e\<close>;
  \<^item> \<open>stack\<close>: the return addresses of the active frames that \<^verbatim>\<open>backtrace\<close> can walk
    when the handler runs, innermost first (empty when it can walk none);
  \<^item> \<open>describe a\<close>: the string \<^verbatim>\<open>backtrace_symbols\<close> gives for address \<open>a\<close> (a symbol
    name and offset, or the bare hexadecimal address when there is no symbol);
  \<^item> \<open>symbols_null\<close>: \<^verbatim>\<open>backtrace_symbols\<close> returns \<^verbatim>\<open>NULL\<close> (it allocates its result
    with \<^verbatim>\<open>malloc\<close>, and returns \<^verbatim>\<open>NULL\<close> when that fails).
\<close>

record platform =
  signal_fails :: bool
  execvp_result :: "string option \<Rightarrow> string list \<Rightarrow> exec_result"
  exec_keeps_handler :: bool
  strerror :: "errno \<Rightarrow> string"
  stack :: "addr list"
  describe :: "addr \<Rightarrow> string"
  symbols_null :: bool

subsection \<open>Formatted output\<close>

text \<open>
  Standard error is the list of the strings written to it, one per call of
  \<^verbatim>\<open>fprintf\<close> or \<^verbatim>\<open>perror\<close>, oldest first (the stream is unbuffered); the bytes on
  the stream are their concatenation.
\<close>

definition nl :: string where
  "nl = [CHR 0x0A]"

definition digit_char :: "nat \<Rightarrow> char" where
  "digit_char d = ''0123456789'' ! d"

text \<open>The conversions \<^verbatim>\<open>%zd\<close> (of a \<^verbatim>\<open>size_t\<close> that is at most 100 here) and \<^verbatim>\<open>%d\<close>.\<close>

fun dec_nat :: "nat \<Rightarrow> string" where
  "dec_nat n = (if n < 10 then [digit_char n] else dec_nat (n div 10) @ [digit_char (n mod 10)])"

definition dec_int :: "int \<Rightarrow> string" where
  "dec_int i = (if i < 0 then CHR ''-'' # dec_nat (nat (- i)) else dec_nat (nat i))"

text \<open>\<^verbatim>\<open>"\n=== SIGABRT CAUGHT IN C HANDLER ===\n"\<close>\<close>

definition banner :: string where
  "banner = nl @ ''=== SIGABRT CAUGHT IN C HANDLER ==='' @ nl"

text \<open>\<^verbatim>\<open>"Signal: %d\n"\<close>\<close>

definition signal_line :: "int \<Rightarrow> string" where
  "signal_line sig = ''Signal: '' @ dec_int sig @ nl"

text \<open>\<^verbatim>\<open>"Obtained %zd stack frames.\n"\<close>\<close>

definition count_line :: "nat \<Rightarrow> string" where
  "count_line n = ''Obtained '' @ dec_nat n @ '' stack frames.'' @ nl"

text \<open>\<^verbatim>\<open>"%s\n"\<close>\<close>

definition frame_line :: "string \<Rightarrow> string" where
  "frame_line s = s @ nl"

text \<open>\<^verbatim>\<open>"================================\n\n"\<close>\<close>

definition closing :: string where
  "closing = ''================================'' @ nl @ nl"

text \<open>\<^verbatim>\<open>perror(s)\<close>: the prefix, a colon and a space, the error text, a newline.\<close>

definition perror_line :: "platform \<Rightarrow> string \<Rightarrow> errno \<Rightarrow> string" where
  "perror_line p s e = s @ '': '' @ strerror p e @ nl"

subsection \<open>abort\_handler\<close>

definition SIGABRT :: int where
  "SIGABRT = 6"

text \<open>
  \<^verbatim>\<open>backtrace(buffer, size)\<close> stores at most \<open>size\<close> return addresses, innermost
  first, and returns how many it stored; the model returns the stored addresses.
\<close>

definition backtrace :: "platform \<Rightarrow> nat \<Rightarrow> addr list" where
  "backtrace p n = take n (stack p)"

text \<open>
  \<^verbatim>\<open>backtrace_symbols(buffer, size)\<close> returns a freshly allocated array of \<open>size\<close>
  strings, one per address, or \<^verbatim>\<open>NULL\<close> (\<open>None\<close>).
\<close>

definition backtrace_symbols :: "platform \<Rightarrow> addr list \<Rightarrow> nat \<Rightarrow> string list option" where
  "backtrace_symbols p buffer n =
     (if symbols_null p then None else Some (map (describe p) (take n buffer)))"

text \<open>
  The loop \<^verbatim>\<open>for (size_t i = 0; i < size; i++) fprintf(stderr, "%s\n", strings[i]);\<close>.
  The source reads \<^verbatim>\<open>strings[i]\<close> without testing \<^verbatim>\<open>strings\<close>: a read through the null
  pointer (or past the array) faults, and the loop stops there. The result is the
  stream and whether the loop ran to its end.
\<close>

function frame_loop :: "string list option \<Rightarrow> nat \<Rightarrow> nat \<Rightarrow> string list \<Rightarrow> string list \<times> bool" where
  "frame_loop strings i n out =
     (if i < n then
        (case strings of
           None \<Rightarrow> (out, False)
         | Some ss \<Rightarrow>
             if i < length ss then frame_loop strings (Suc i) n (out @ [frame_line (ss ! i)])
             else (out, False))
      else (out, True))"
  by pat_completeness auto
termination
  by (relation "measure (\<lambda>(strings, i, n, out). n - i)") auto

text \<open>
  \<^verbatim>\<open>abort_handler(sig)\<close>, from the stream as it stands to the stream and the way the
  process ends; the handler has no path that returns. \<^verbatim>\<open>free(strings)\<close> has no effect
  on what is observed (\<^verbatim>\<open>free(NULL)\<close> does nothing).
\<close>

definition abort_handler :: "platform \<Rightarrow> int \<Rightarrow> string list \<Rightarrow> string list \<times> status" where
  "abort_handler p sig out0 =
     (let out1 = out0 @ [banner];
          out2 = out1 @ [signal_line sig];
          array = backtrace p 100;
          sz = length array;
          strings = backtrace_symbols p array sz;
          out3 = out2 @ [count_line sz];
          (out4, completed) = frame_loop strings 0 sz out3
      in if completed then (out4 @ [closing], Exited 134) else (out4, Faulted))"

text \<open>
  The library calls \<^verbatim>\<open>abort_handler\<close> makes, in the order of the source: two
  \<^verbatim>\<open>fprintf\<close>, \<^verbatim>\<open>backtrace(array, 100)\<close>, \<^verbatim>\<open>backtrace_symbols(array, size)\<close>, one
  \<^verbatim>\<open>fprintf\<close> for the count, one \<^verbatim>\<open>fprintf\<close> for each string the loop reads, and, when
  the loop has run to its end, \<^verbatim>\<open>free\<close>, the last \<^verbatim>\<open>fprintf\<close> and \<^verbatim>\<open>exit(134)\<close>.
\<close>

datatype handler_call = Fprintf | Backtrace nat | Backtrace_symbols nat | Free | Exit int

definition abort_handler_calls :: "platform \<Rightarrow> handler_call list" where
  "abort_handler_calls p =
     (let array = backtrace p 100;
          sz = length array;
          strings = backtrace_symbols p array sz;
          (out4, completed) = frame_loop strings 0 sz []
      in [Fprintf, Fprintf, Backtrace 100, Backtrace_symbols sz, Fprintf]
         @ replicate (length out4) Fprintf
         @ (if completed then [Free, Fprintf, Exit 134] else []))"

text \<open>
  Modelled from the spec: the table of the operations that are safe to perform in an
  asynchronous signal handler is not in the source. The spec asks for "only operations
  safe to perform inside a signal handler (no unbounded allocation, no locks that could
  already be held)", documented safe for async-signal context, and treats "emitting
  diagnostic text to the standard error stream and capturing a backtrace via
  frame-pointer/return-address walking" as acceptable: \<^verbatim>\<open>fprintf(stderr, ...)\<close> and
  \<^verbatim>\<open>backtrace\<close> are taken as safe. \<^verbatim>\<open>backtrace_symbols\<close> allocates its result with
  \<^verbatim>\<open>malloc\<close> and \<^verbatim>\<open>free\<close> releases it, both under the allocator's lock, which the
  interrupted code may hold; \<^verbatim>\<open>exit\<close> runs the exit handlers and flushes the streams
  (POSIX documents \<^verbatim>\<open>_exit\<close> as safe, not \<^verbatim>\<open>exit\<close>). These three are not safe.
\<close>

definition async_signal_safe :: "handler_call \<Rightarrow> bool" where
  "async_signal_safe c =
     (case c of
        Fprintf \<Rightarrow> True
      | Backtrace n \<Rightarrow> True
      | Backtrace_symbols n \<Rightarrow> False
      | Free \<Rightarrow> False
      | Exit n \<Rightarrow> False)"

subsection \<open>main, one statement at a time\<close>

text \<open>
  The argument vector is the list \<open>argv\<close> of its \<open>argc\<close> strings; in C it is followed by
  a null pointer, \<^verbatim>\<open>argv[argc]\<close>. Reading \<^verbatim>\<open>argv[i]\<close> gives the string, the null pointer
  (\<open>Some None\<close>) at \<open>i = argc\<close>, and is outside the vector (\<open>None\<close>) beyond.
\<close>

definition argv_at :: "string list \<Rightarrow> nat \<Rightarrow> string option option" where
  "argv_at argv i =
     (if i < length argv then Some (Some (argv ! i))
      else if i = length argv then Some None
      else None)"

text \<open>Where the launcher stands: before each statement of \<^verbatim>\<open>main\<close>, running as the target, or ended.\<close>

datatype pc = At_signal | At_execvp | At_perror errno | At_return | In_target | Terminated status

text \<open>The library calls \<^verbatim>\<open>main\<close> has made, with their arguments.\<close>

datatype libcall = Call_signal int | Call_execvp "string option" "string list" | Call_perror string

record process =
  pc :: pc
  disposition :: sighandler
  err :: "string list"
  calls :: "libcall list"
  target :: "(string option \<times> string list) option"

definition init_process :: "sighandler \<Rightarrow> process" where
  "init_process d = \<lparr>pc = At_signal, disposition = d, err = [], calls = [], target = None\<rparr>"

text \<open>The disposition of SIGABRT after the image has been replaced.\<close>

definition exec_disposition :: "platform \<Rightarrow> sighandler \<Rightarrow> sighandler" where
  "exec_disposition p d =
     (case d of
        Abort_handler \<Rightarrow> if exec_keeps_handler p then Abort_handler else SIG_DFL
      | SIG_DFL \<Rightarrow> SIG_DFL
      | SIG_IGN \<Rightarrow> SIG_IGN)"

text \<open>
  The next statement of \<^verbatim>\<open>main\<close>:
  \<^verbatim>\<open>
    signal(SIGABRT, abort_handler);
    execvp(argv[1], argv + 1);
    perror("execvp");
    return 1;
  \<close>
  The result of \<^verbatim>\<open>signal\<close> is not looked at. Once the image is replaced the launcher's
  code is gone: the target's own steps change nothing the model records.
\<close>

definition main_step :: "platform \<Rightarrow> string list \<Rightarrow> process \<Rightarrow> process" where
  "main_step p argv s =
     (case pc s of
        At_signal \<Rightarrow>
          s\<lparr>pc := At_execvp,
            disposition := (if signal_fails p then disposition s else Abort_handler),
            calls := calls s @ [Call_signal SIGABRT]\<rparr>
      | At_execvp \<Rightarrow>
          (case argv_at argv 1 of
             None \<Rightarrow> s\<lparr>pc := Terminated Faulted\<rparr>
           | Some file \<Rightarrow>
               (let args = drop 1 argv;
                    s' = s\<lparr>calls := calls s @ [Call_execvp file args]\<rparr>
                in case execvp_result p file args of
                     Replaced \<Rightarrow>
                       s'\<lparr>pc := In_target,
                          disposition := exec_disposition p (disposition s),
                          target := Some (file, args)\<rparr>
                   | Failed e \<Rightarrow> s'\<lparr>pc := At_perror e\<rparr>
                   | Exec_faults \<Rightarrow> s'\<lparr>pc := Terminated Faulted\<rparr>))
      | At_perror e \<Rightarrow>
          s\<lparr>pc := At_return,
            err := err s @ [perror_line p ''execvp'' e],
            calls := calls s @ [Call_perror ''execvp'']\<rparr>
      | At_return \<Rightarrow> s\<lparr>pc := Terminated (Exited 1)\<rparr>
      | In_target \<Rightarrow> s
      | Terminated st \<Rightarrow> s)"

text \<open>
  Delivery of SIGABRT to the process: the handler runs at once and ends the process,
  or the default action kills it, or the signal is ignored.
\<close>

definition deliver_abort :: "platform \<Rightarrow> process \<Rightarrow> process" where
  "deliver_abort p s =
     (case disposition s of
        Abort_handler \<Rightarrow>
          (let (out, st) = abort_handler p SIGABRT (err s)
           in s\<lparr>pc := Terminated st, err := out\<rparr>)
      | SIG_DFL \<Rightarrow> s\<lparr>pc := Terminated (Killed SIGABRT)\<rparr>
      | SIG_IGN \<Rightarrow> s)"

text \<open>
  What can happen to the process: it runs its next statement (\<open>Tick\<close>), SIGABRT is
  delivered (\<open>Abort\<close>: raised by the running code or sent from outside), or the target
  program exits by itself (\<open>Target_exit\<close>). Nothing happens to a process that has ended.
\<close>

datatype event = Tick | Abort | Target_exit int

definition alive :: "process \<Rightarrow> bool" where
  "alive s = (case pc s of Terminated st \<Rightarrow> False | _ \<Rightarrow> True)"

definition step :: "platform \<Rightarrow> string list \<Rightarrow> process \<Rightarrow> event \<Rightarrow> process" where
  "step p argv s ev =
     (if alive s then
        (case ev of
           Tick \<Rightarrow> main_step p argv s
         | Abort \<Rightarrow> deliver_abort p s
         | Target_exit n \<Rightarrow> if pc s = In_target then s\<lparr>pc := Terminated (Exited n)\<rparr> else s)
      else s)"

fun run :: "platform \<Rightarrow> string list \<Rightarrow> process \<Rightarrow> event list \<Rightarrow> process" where
  "run p argv s [] = s"
| "run p argv s (ev # evs) = run p argv (step p argv s ev) evs"

text \<open>
  \<^verbatim>\<open>main\<close> run through its four statements with no signal delivered on the way. When
  \<^verbatim>\<open>execvp\<close> has replaced the image the remaining steps are the target's and change
  nothing.
\<close>

definition main :: "platform \<Rightarrow> string list \<Rightarrow> sighandler \<Rightarrow> process" where
  "main p argv d = run p argv (init_process d) [Tick, Tick, Tick, Tick]"

subsection \<open>A concrete platform\<close>

text \<open>
  A platform to run the definitions on. It behaves as POSIX and the GNU C library do:
  \<^verbatim>\<open>signal\<close> succeeds, \<^verbatim>\<open>execvp\<close> of a missing path fails with \<^verbatim>\<open>ENOENT\<close>, a null
  \<^verbatim>\<open>file\<close> is read and faults, image replacement resets a caught signal to its default
  action, and two frames are on the stack when the handler runs.
\<close>

definition example_platform :: platform where
  "example_platform =
     \<lparr>signal_fails = False,
      execvp_result = (\<lambda>file args.
        if file = None then Exec_faults
        else if file = Some ''/no/such/path'' then Failed ENOENT
        else Replaced),
      exec_keeps_handler = False,
      strerror = (\<lambda>e. case e of
          ENOENT \<Rightarrow> ''No such file or directory''
        | ENOEXEC \<Rightarrow> ''Exec format error''
        | EACCES \<Rightarrow> ''Permission denied''
        | EFAULT \<Rightarrow> ''Bad address''
        | Errno_other n \<Rightarrow> ''Unknown error '' @ dec_nat n),
      stack = [4198742, 4199012],
      describe = (\<lambda>a. ''./abort_handler() [+'' @ dec_nat a @ '']''),
      symbols_null = False\<rparr>"

section \<open>Properties of abort\_handler\<close>

declare frame_loop.simps [simp del]

declare dec_nat.simps [simp del]

text \<open>The formats on the values of the concrete runs below: signal 6, and 2 and 100 frames.\<close>

lemma rendered_lines:
  "signal_line SIGABRT = ''Signal: 6'' @ nl"
  "count_line 2 = ''Obtained 2 stack frames.'' @ nl"
  "count_line 100 = ''Obtained 100 stack frames.'' @ nl"
  by (simp_all add: signal_line_def count_line_def dec_int_def SIGABRT_def dec_nat.simps
      digit_char_def)

text \<open>With the array of strings in hand the loop prints every string from index \<open>i\<close> on.\<close>

lemma frame_loop_Some:
  "i \<le> length ss \<Longrightarrow>
   frame_loop (Some ss) i (length ss) out = (out @ map frame_line (drop i ss), True)"
proof (induction "length ss - i" arbitrary: i out)
  case 0
  then show ?case by (subst frame_loop.simps) simp
next
  case (Suc k)
  then have lt: "i < length ss" by arith
  from Suc have k: "k = length ss - Suc i" by arith
  have "frame_loop (Some ss) i (length ss) out
          = frame_loop (Some ss) (Suc i) (length ss) (out @ [frame_line (ss ! i)])"
    using lt by (subst frame_loop.simps) simp
  also have "\<dots> = ((out @ [frame_line (ss ! i)]) @ map frame_line (drop (Suc i) ss), True)"
    using Suc.hyps(1) [OF k] lt by simp
  also have "\<dots> = (out @ map frame_line (drop i ss), True)"
    using lt by (simp add: Cons_nth_drop_Suc [symmetric])
  finally show ?case .
qed

text \<open>With the null pointer the loop faults at its first read, if it has one to make.\<close>

lemma frame_loop_None: "frame_loop None 0 n out = (out, n = 0)"
  by (subst frame_loop.simps) simp

lemma backtrace_le: "length (backtrace p n) \<le> n"
  by (simp add: backtrace_def)

lemma abort_handler_symbols:
  "\<not> symbols_null p \<Longrightarrow>
   abort_handler p sig out0 =
     (out0 @ [banner, signal_line sig, count_line (length (backtrace p 100))]
        @ map frame_line (map (describe p) (backtrace p 100)) @ [closing],
      Exited 134)"
  by (simp add: abort_handler_def backtrace_symbols_def Let_def
      frame_loop_Some [of 0 "map (describe p) (backtrace p 100)", simplified])

lemma abort_handler_null:
  "symbols_null p \<Longrightarrow>
   abort_handler p sig out0 =
     (if backtrace p 100 = []
      then (out0 @ [banner, signal_line sig, count_line 0, closing], Exited 134)
      else (out0 @ [banner, signal_line sig, count_line (length (backtrace p 100))], Faulted))"
  by (simp add: abort_handler_def backtrace_symbols_def Let_def frame_loop_None)

lemma banner_in_report: "banner \<in> set (fst (abort_handler p sig out))"
  by (cases "symbols_null p") (simp_all add: abort_handler_symbols abort_handler_null)

text \<open>
  The report of a handler whose \<^verbatim>\<open>backtrace_symbols\<close> returned its array: the banner,
  the signal number, the frame count, one line per captured frame in the order
  \<^verbatim>\<open>backtrace\<close> stored them (innermost first), the closing banner; then \<^verbatim>\<open>exit(134)\<close>.
\<close>

theorem abort_handler_reports:
  assumes "\<not> symbols_null p"
  shows "abort_handler p sig out0 =
     (out0 @ [banner, signal_line sig, count_line (length (backtrace p 100))]
        @ map (\<lambda>a. frame_line (describe p a)) (backtrace p 100) @ [closing],
      Exited 134)"
  using assms by (simp add: abort_handler_symbols)

theorem abort_handler_reports_witness:
  "\<not> symbols_null example_platform
   \<and> abort_handler example_platform SIGABRT [] =
       ([banner, signal_line SIGABRT, count_line 2,
         frame_line (describe example_platform 4198742),
         frame_line (describe example_platform 4199012),
         closing],
        Exited 134)"
proof -
  have h: "\<not> symbols_null example_platform"
    by (simp add: example_platform_def)
  have bt: "backtrace example_platform 100 = [4198742, 4199012]"
    by (simp add: backtrace_def example_platform_def)
  show ?thesis
    using h abort_handler_reports [OF h, of SIGABRT "[]"] bt
    by (simp add: numeral_2_eq_2)
qed

text \<open>
  Claim C2: whenever the handler runs it writes the banner, the signal line, the
  frame-count line, one line per captured frame and the closing banner, in this order,
  and then ends the process with exit code 134. The source does not test the result of
  \<^verbatim>\<open>backtrace_symbols\<close>: when that is \<^verbatim>\<open>NULL\<close> and two frames were captured, the handler
  writes the first three lines, announcing two frames, and faults on \<^verbatim>\<open>strings[0]\<close>; no
  frame line and no closing banner are written and \<^verbatim>\<open>exit(134)\<close> is not reached.
\<close>

theorem abort_handler_report_cut_short:
  "abort_handler (example_platform\<lparr>symbols_null := True\<rparr>) SIGABRT [] =
     ([banner, signal_line 6, count_line 2], Faulted)"
  by (simp add: abort_handler_null backtrace_def example_platform_def SIGABRT_def numeral_2_eq_2)

text \<open>
  Claim C5: for every outcome of the capture the handler completes its report and
  ends the process without faulting. With one frame captured and \<^verbatim>\<open>backtrace_symbols\<close>
  returning \<^verbatim>\<open>NULL\<close> the handler itself faults, before the closing banner.
\<close>

theorem abort_handler_faults_without_symbols:
  "snd (abort_handler (example_platform\<lparr>symbols_null := True, stack := [4198742]\<rparr>) SIGABRT []) = Faulted
   \<and> closing \<notin> set (fst (abort_handler (example_platform\<lparr>symbols_null := True, stack := [4198742]\<rparr>) SIGABRT []))"
  by (simp add: abort_handler_null backtrace_def example_platform_def
      closing_def banner_def signal_line_def count_line_def nl_def)

text \<open>
  Claim C9: the frame count the handler reports and the number of frame lines it
  prints never exceed 100, the length of \<^verbatim>\<open>array\<close> and the bound passed to
  \<^verbatim>\<open>backtrace\<close>. The stream is what was there, the three header lines with the count of
  captured frames, at most 100 frame lines, and the closing banner unless the handler
  faulted.
\<close>

theorem frame_count_bounded:
  "length (backtrace p 100) \<le> 100
   \<and> (\<exists>fs. length fs \<le> 100
        \<and> (fst (abort_handler p sig out0) =
              out0 @ [banner, signal_line sig, count_line (length (backtrace p 100))]
                @ map frame_line fs @ [closing]
           \<or> fst (abort_handler p sig out0) =
              out0 @ [banner, signal_line sig, count_line (length (backtrace p 100))]
                @ map frame_line fs))"
proof (cases "symbols_null p")
  case False
  have "length (map (describe p) (backtrace p 100)) \<le> 100"
    by (simp add: backtrace_le)
  then show ?thesis
    using False abort_handler_symbols [of p sig out0] backtrace_le [of p 100] by fastforce
next
  case True
  have "length ([] :: string list) \<le> 100" by simp
  then show ?thesis
    using True abort_handler_null [of p sig out0] backtrace_le [of p 100]
    by (intro conjI exI [of _ "[]"]) (simp_all split: if_splits)
qed

text \<open>A stack of 250 frames: 100 are captured, and the stream has 3 + 100 + 1 entries.\<close>

theorem frame_count_bounded_witness:
  "length (backtrace (example_platform\<lparr>stack := replicate 250 7\<rparr>) 100) = 100
   \<and> length (fst (abort_handler (example_platform\<lparr>stack := replicate 250 7\<rparr>) SIGABRT [])) = 104"
  using frame_count_bounded [of "example_platform\<lparr>stack := replicate 250 7\<rparr>" SIGABRT "[]"]
  by (simp add: abort_handler_symbols backtrace_def example_platform_def)

text \<open>The calls of a handler that got its array, and of one that got the null pointer.\<close>

lemma abort_handler_calls_symbols:
  "\<not> symbols_null p \<Longrightarrow>
   abort_handler_calls p =
     [Fprintf, Fprintf, Backtrace 100, Backtrace_symbols (length (backtrace p 100)), Fprintf]
       @ replicate (length (backtrace p 100)) Fprintf @ [Free, Fprintf, Exit 134]"
  by (simp add: abort_handler_calls_def backtrace_symbols_def Let_def
      frame_loop_Some [of 0 "map (describe p) (backtrace p 100)", simplified])

lemma abort_handler_calls_null:
  "symbols_null p \<Longrightarrow>
   abort_handler_calls p =
     [Fprintf, Fprintf, Backtrace 100, Backtrace_symbols (length (backtrace p 100)), Fprintf]
       @ (if backtrace p 100 = [] then [Free, Fprintf, Exit 134] else [])"
  by (simp add: abort_handler_calls_def backtrace_symbols_def Let_def frame_loop_None)

text \<open>
  The log is the log of \<open>abort_handler\<close>: one \<^verbatim>\<open>fprintf\<close> for each string on the stream,
  and \<^verbatim>\<open>exit(134)\<close> exactly when the process ends with that status.
\<close>

lemma abort_handler_calls_agree:
  "length (filter (\<lambda>c. c = Fprintf) (abort_handler_calls p)) = length (fst (abort_handler p sig []))
   \<and> (Exit 134 \<in> set (abort_handler_calls p)) = (snd (abort_handler p sig out0) = Exited 134)"
  by (cases "symbols_null p")
     (simp_all add: abort_handler_calls_symbols abort_handler_calls_null
        abort_handler_symbols abort_handler_null)

text \<open>The handler calls \<^verbatim>\<open>backtrace_symbols\<close> on every run, whatever the platform answers.\<close>

lemma abort_handler_always_allocates:
  "Backtrace_symbols (length (backtrace p 100)) \<in> set (abort_handler_calls p)
   \<and> \<not> list_all async_signal_safe (abort_handler_calls p)"
  by (cases "symbols_null p")
     (simp_all add: abort_handler_calls_symbols abort_handler_calls_null async_signal_safe_def)

text \<open>
  Claim C4: every operation performed inside the handler is safe in asynchronous
  signal-handler context, with no allocation and no lock that the interrupted code
  could hold. On a run with two frames the handler makes ten library calls; three of
  them, \<^verbatim>\<open>backtrace_symbols\<close> (which allocates the array that the source itself releases
  with \<^verbatim>\<open>free(strings)\<close>), \<^verbatim>\<open>free\<close> and \<^verbatim>\<open>exit\<close>, are not safe there.
\<close>

theorem abort_handler_calls_unsafe:
  "abort_handler_calls example_platform =
     [Fprintf, Fprintf, Backtrace 100, Backtrace_symbols 2, Fprintf, Fprintf, Fprintf,
      Free, Fprintf, Exit 134]
   \<and> filter (\<lambda>c. \<not> async_signal_safe c) (abort_handler_calls example_platform)
       = [Backtrace_symbols 2, Free, Exit 134]
   \<and> \<not> list_all async_signal_safe (abort_handler_calls example_platform)"
  by (simp add: abort_handler_calls_symbols backtrace_def example_platform_def
      async_signal_safe_def numeral_2_eq_2)

section \<open>Properties of main and of the process\<close>

lemmas proc_defs = step_def main_step_def deliver_abort_def alive_def init_process_def
  argv_at_def exec_disposition_def Let_def

lemma run_dead: "\<not> alive s \<Longrightarrow> run p argv s evs = s"
  by (induction evs) (simp_all add: step_def)

lemma perror_line_not_banner: "perror_line p ''execvp'' e \<noteq> banner"
  by (simp add: perror_line_def banner_def nl_def)

text \<open>A delivery that finds the handler installed ends the process with the banner written.\<close>

lemma step_fires:
  "alive s \<Longrightarrow> disposition s = Abort_handler \<Longrightarrow>
   \<not> alive (step p argv s Abort) \<and> banner \<in> set (err (step p argv s Abort))"
  using banner_in_report [of p SIGABRT "err s"]
  by (simp add: step_def deliver_abort_def alive_def split_def Let_def)

lemma run_append: "run p argv s (xs @ ys) = run p argv (run p argv s xs) ys"
  by (induction xs arbitrary: s) simp_all

text \<open>
  While no abort is delivered the launcher writes no banner, and between its call of
  \<^verbatim>\<open>signal\<close> and the replacement of the image the disposition is the handler if the
  registration succeeded and the one the process started with (\<open>d\<close>) if it failed.
\<close>

lemma launcher_step:
  assumes "ev \<noteq> Abort"
    and "banner \<notin> set (err s)"
    and "pc s = At_signal \<longrightarrow> disposition s = d"
    and "alive s \<and> pc s \<noteq> At_signal \<and> pc s \<noteq> In_target \<longrightarrow>
           disposition s = (if signal_fails p then d else Abort_handler)"
  shows "banner \<notin> set (err (step p argv s ev))
       \<and> (pc (step p argv s ev) = At_signal \<longrightarrow> disposition (step p argv s ev) = d)
       \<and> (alive (step p argv s ev) \<and> pc (step p argv s ev) \<noteq> At_signal
            \<and> pc (step p argv s ev) \<noteq> In_target \<longrightarrow>
          disposition (step p argv s ev) = (if signal_fails p then d else Abort_handler))"
  using assms
  by (cases ev)
     (auto simp: step_def main_step_def alive_def Let_def perror_line_not_banner
           perror_line_not_banner [symmetric]
           split: pc.splits option.splits exec_result.splits)

lemma launcher_run:
  assumes "Abort \<notin> set evs"
    and "banner \<notin> set (err s)"
    and "pc s = At_signal \<longrightarrow> disposition s = d"
    and "alive s \<and> pc s \<noteq> At_signal \<and> pc s \<noteq> In_target \<longrightarrow>
           disposition s = (if signal_fails p then d else Abort_handler)"
  shows "banner \<notin> set (err (run p argv s evs))
       \<and> (alive (run p argv s evs) \<and> pc (run p argv s evs) \<noteq> At_signal
            \<and> pc (run p argv s evs) \<noteq> In_target \<longrightarrow>
          disposition (run p argv s evs) = (if signal_fails p then d else Abort_handler))"
  using assms
proof (induction evs arbitrary: s)
  case Nil
  then show ?case by simp
next
  case (Cons ev evs)
  from Cons.prems have "ev \<noteq> Abort" and "Abort \<notin> set evs" by auto
  with Cons.prems launcher_step [of ev s d p argv] Cons.IH [of "step p argv s ev"]
  show ?case by simp
qed

text \<open>
  Past the call of \<^verbatim>\<open>signal\<close>, a process whose disposition is not the handler never
  gets it, and never writes the banner.
\<close>

lemma unarmed_step:
  assumes "banner \<notin> set (err s)" and "pc s \<noteq> At_signal" and "disposition s \<noteq> Abort_handler"
  shows "banner \<notin> set (err (step p argv s ev)) \<and> pc (step p argv s ev) \<noteq> At_signal
       \<and> disposition (step p argv s ev) \<noteq> Abort_handler"
  using assms
  by (cases ev)
     (auto simp: step_def main_step_def deliver_abort_def alive_def Let_def exec_disposition_def
           perror_line_not_banner perror_line_not_banner [symmetric]
           split: pc.splits option.splits exec_result.splits sighandler.splits)

lemma unarmed_run:
  "banner \<notin> set (err s) \<Longrightarrow> pc s \<noteq> At_signal \<Longrightarrow> disposition s \<noteq> Abort_handler \<Longrightarrow>
   banner \<notin> set (err (run p argv s evs))"
proof (induction evs arbitrary: s)
  case Nil
  then show ?case by simp
next
  case (Cons ev evs)
  then show ?case using unarmed_step [of s p argv ev] by simp
qed

text \<open>
  Claim C1: for every valid executable whose run raises the abort signal after the
  image has been replaced, the handler installed before the replacement fires and the
  exit code is 134. \<^verbatim>\<open>main\<close> installs the handler and then runs the original program
  with \<^verbatim>\<open>execvp\<close>; where image replacement resets caught signals, as POSIX \<^verbatim>\<open>exec\<close>
  does, the handler is gone as soon as the target runs. On
  \<^verbatim>\<open>abort_handler /bin/sh -c 'kill -ABRT $$'\<close> the handler is the disposition after the
  first statement and the default action is the disposition after the second; the
  abort the target (which has not changed the disposition) then raises kills the
  process by the signal, with nothing written and \<^verbatim>\<open>exit(134)\<close> never called.
\<close>

theorem handler_reset_by_image_replacement:
  "disposition (run example_platform [''abort_handler'', ''/bin/sh'', ''-c'', ''kill -ABRT $$'']
      (init_process SIG_DFL) [Tick])
     = Abort_handler
   \<and> disposition (run example_platform [''abort_handler'', ''/bin/sh'', ''-c'', ''kill -ABRT $$'']
      (init_process SIG_DFL) [Tick, Tick])
     = SIG_DFL
   \<and> target (run example_platform [''abort_handler'', ''/bin/sh'', ''-c'', ''kill -ABRT $$'']
      (init_process SIG_DFL) [Tick, Tick, Abort])
     = Some (Some ''/bin/sh'', [''/bin/sh'', ''-c'', ''kill -ABRT $$''])
   \<and> pc (run example_platform [''abort_handler'', ''/bin/sh'', ''-c'', ''kill -ABRT $$'']
      (init_process SIG_DFL) [Tick, Tick, Abort])
     = Terminated (Killed SIGABRT)
   \<and> err (run example_platform [''abort_handler'', ''/bin/sh'', ''-c'', ''kill -ABRT $$'']
      (init_process SIG_DFL) [Tick, Tick, Abort])
     = []"
  by (simp add: proc_defs example_platform_def)

text \<open>
  Claim C3: when \<^verbatim>\<open>execvp\<close> fails to start the target, whatever the error, control
  returns to \<^verbatim>\<open>main\<close> with nothing written so far; \<^verbatim>\<open>perror\<close> writes one line, the word
  \<^verbatim>\<open>execvp\<close> and the description of the error; and \<^verbatim>\<open>main\<close> returns 1, an exit status
  that is neither 0 nor 134.
\<close>

theorem execvp_failure_reported:
  assumes "argv_at argv 1 = Some file"
    and "execvp_result p file (drop 1 argv) = Failed e"
  shows "pc (run p argv (init_process d) [Tick, Tick]) = At_perror e
       \<and> err (run p argv (init_process d) [Tick, Tick]) = []
       \<and> pc (main p argv d) = Terminated (Exited 1)
       \<and> err (main p argv d) = [''execvp: '' @ strerror p e @ nl]
       \<and> Exited 1 \<noteq> Exited 134 \<and> Exited 1 \<noteq> Exited 0"
  using assms
  by (simp add: main_def step_def main_step_def alive_def init_process_def Let_def perror_line_def)

theorem execvp_failure_reported_witness:
  "argv_at [''abort_handler'', ''/no/such/path''] 1 = Some (Some ''/no/such/path'')
   \<and> execvp_result example_platform (Some ''/no/such/path'')
        (drop 1 [''abort_handler'', ''/no/such/path'']) = Failed ENOENT
   \<and> pc (main example_platform [''abort_handler'', ''/no/such/path''] SIG_DFL) = Terminated (Exited 1)
   \<and> err (main example_platform [''abort_handler'', ''/no/such/path''] SIG_DFL)
       = [''execvp: No such file or directory'' @ nl]"
proof -
  have a: "argv_at [''abort_handler'', ''/no/such/path''] 1 = Some (Some ''/no/such/path'')"
    by (simp add: argv_at_def)
  have b: "execvp_result example_platform (Some ''/no/such/path'')
             (drop 1 [''abort_handler'', ''/no/such/path'']) = Failed ENOENT"
    by (simp add: example_platform_def)
  have c: "strerror example_platform ENOENT = ''No such file or directory''"
    by (simp add: example_platform_def)
  show ?thesis
    using execvp_failure_reported [OF a b, of SIG_DFL] a b c by simp
qed

text \<open>
  Claim C6, as stated: the banner is written if and only if the abort signal was
  delivered. The "if" fails when the registration of the handler has failed, which
  \<^verbatim>\<open>main\<close> lets pass in silence: the abort delivered to the launcher after its call of
  \<^verbatim>\<open>signal\<close> takes the default action and no banner is written.
\<close>

theorem abort_after_failed_registration:
  "signal_fails (example_platform\<lparr>signal_fails := True\<rparr>)
   \<and> Abort \<in> set [Tick, Abort]
   \<and> alive (run (example_platform\<lparr>signal_fails := True\<rparr>) [''abort_handler'', ''/bin/true'']
        (init_process SIG_DFL) [Tick])
   \<and> pc (run (example_platform\<lparr>signal_fails := True\<rparr>) [''abort_handler'', ''/bin/true'']
        (init_process SIG_DFL) [Tick, Abort])
       = Terminated (Killed SIGABRT)
   \<and> banner \<notin> set (err (run (example_platform\<lparr>signal_fails := True\<rparr>)
        [''abort_handler'', ''/bin/true''] (init_process SIG_DFL) [Tick, Abort]))"
  by (simp add: proc_defs example_platform_def)

text \<open>
  Claim C6, amended: for a process started with the default or the ignore disposition,
  the banner is written only if the abort signal was delivered: on every run in which
  no abort signal is delivered, such as one where the target exits normally or where
  \<^verbatim>\<open>execvp\<close> fails, no banner appears. When the first abort signal is delivered to the
  live launcher after its call of \<^verbatim>\<open>signal\<close> and before the image has been replaced,
  the banner is written if and only if the registration had succeeded.
\<close>

theorem banner_needs_abort_and_registration:
  assumes "d \<noteq> Abort_handler"
  shows "(Abort \<notin> set evs \<longrightarrow> banner \<notin> set (err (run p argv (init_process d) evs)))
       \<and> (Abort \<notin> set pre \<and> alive (run p argv (init_process d) pre)
            \<and> pc (run p argv (init_process d) pre) \<noteq> At_signal
            \<and> pc (run p argv (init_process d) pre) \<noteq> In_target \<longrightarrow>
          (banner \<in> set (err (run p argv (init_process d) (pre @ Abort # post))))
            = (\<not> signal_fails p))"
proof (intro conjI impI)
  assume "Abort \<notin> set evs"
  then show "banner \<notin> set (err (run p argv (init_process d) evs))"
    using launcher_run [of evs "init_process d" d p argv] by (simp add: init_process_def)
next
  let ?s = "run p argv (init_process d) pre"
  assume a: "Abort \<notin> set pre \<and> alive ?s \<and> pc ?s \<noteq> At_signal \<and> pc ?s \<noteq> In_target"
  then have nb: "banner \<notin> set (err ?s)"
    and disp: "disposition ?s = (if signal_fails p then d else Abort_handler)"
    using launcher_run [of pre "init_process d" d p argv] by (simp_all add: init_process_def)
  have split: "run p argv (init_process d) (pre @ Abort # post)
                 = run p argv (step p argv ?s Abort) post"
    by (simp add: run_append)
  show "(banner \<in> set (err (run p argv (init_process d) (pre @ Abort # post))))
          = (\<not> signal_fails p)"
  proof (cases "signal_fails p")
    case False
    with disp a have "\<not> alive (step p argv ?s Abort)"
      and "banner \<in> set (err (step p argv ?s Abort))"
      using step_fires [of ?s p argv] by simp_all
    with False show ?thesis by (simp add: split run_dead)
  next
    case True
    with disp assms have "disposition ?s \<noteq> Abort_handler" by simp
    with nb a have "banner \<notin> set (err (run p argv (step p argv ?s Abort) post))"
      using unarmed_step [of ?s p argv Abort] unarmed_run [of "step p argv ?s Abort" p argv post]
      by simp
    with True show ?thesis by (simp add: split)
  qed
qed

text \<open>
  A target that exits with 0 and a launch that fails write no banner; an abort
  delivered between \<^verbatim>\<open>signal\<close> and \<^verbatim>\<open>execvp\<close> writes it when the registration succeeded
  and does not when it failed.
\<close>

theorem banner_needs_abort_and_registration_witness:
  "SIG_DFL \<noteq> Abort_handler
   \<and> Abort \<notin> set [Tick, Tick, Tick, Target_exit 0]
   \<and> banner \<notin> set (err (run example_platform [''abort_handler'', ''/bin/true''] (init_process SIG_DFL)
        [Tick, Tick, Tick, Target_exit 0]))
   \<and> Abort \<notin> set [Tick, Tick, Tick, Tick]
   \<and> banner \<notin> set (err (run example_platform [''abort_handler'', ''/no/such/path''] (init_process SIG_DFL)
        [Tick, Tick, Tick, Tick]))
   \<and> pc (run example_platform [''abort_handler'', ''/bin/true''] (init_process SIG_DFL) [Tick]) = At_execvp
   \<and> banner \<in> set (err (run example_platform [''abort_handler'', ''/bin/true''] (init_process SIG_DFL)
        ([Tick] @ Abort # [])))
   \<and> banner \<notin> set (err (run (example_platform\<lparr>signal_fails := True\<rparr>)
        [''abort_handler'', ''/bin/true''] (init_process SIG_DFL) ([Tick] @ Abort # [])))"
proof -
  have d: "SIG_DFL \<noteq> Abort_handler" by simp
  have a: "Abort \<notin> set [Tick, Tick, Tick, Target_exit 0]"
    and b: "Abort \<notin> set [Tick, Tick, Tick, Tick]"
    and c: "Abort \<notin> set [Tick]"
    by simp_all
  have s1: "pc (run example_platform [''abort_handler'', ''/bin/true''] (init_process SIG_DFL) [Tick]) = At_execvp"
    and l1: "alive (run example_platform [''abort_handler'', ''/bin/true''] (init_process SIG_DFL) [Tick])"
    and s2: "pc (run (example_platform\<lparr>signal_fails := True\<rparr>) [''abort_handler'', ''/bin/true'']
               (init_process SIG_DFL) [Tick]) = At_execvp"
    and l2: "alive (run (example_platform\<lparr>signal_fails := True\<rparr>) [''abort_handler'', ''/bin/true'']
               (init_process SIG_DFL) [Tick])"
    and f1: "\<not> signal_fails example_platform"
    and f2: "signal_fails (example_platform\<lparr>signal_fails := True\<rparr>)"
    by (simp_all add: proc_defs example_platform_def)
  show ?thesis
    using d a b c s1 l1 s2 l2 f1 f2
      banner_needs_abort_and_registration [OF d, where p = example_platform
        and argv = "[''abort_handler'', ''/bin/true'']" and evs = "[Tick, Tick, Tick, Target_exit 0]"
        and pre = "[Tick]" and post = "[]"]
      banner_needs_abort_and_registration [OF d, where p = example_platform
        and argv = "[''abort_handler'', ''/no/such/path'']" and evs = "[Tick, Tick, Tick, Tick]"
        and pre = "[]" and post = "[]"]
      banner_needs_abort_and_registration [OF d, where p = "example_platform\<lparr>signal_fails := True\<rparr>"
        and argv = "[''abort_handler'', ''/bin/true'']" and evs = "[]"
        and pre = "[Tick]" and post = "[]"]
    by simp
qed

text \<open>
  Claim C7: a failed registration is neither fatal nor reported. Whether \<^verbatim>\<open>signal\<close>
  fails or not (\<open>b\<close>), the first step writes nothing and leaves \<^verbatim>\<open>main\<close> at the call of
  \<^verbatim>\<open>execvp\<close>, which is made with the same arguments and has the same outcome.
\<close>

theorem registration_result_ignored:
  assumes "argv_at argv 1 = Some file"
  shows "pc (run (p\<lparr>signal_fails := b\<rparr>) argv (init_process d) [Tick]) = At_execvp
       \<and> err (run (p\<lparr>signal_fails := b\<rparr>) argv (init_process d) [Tick]) = []
       \<and> calls (run (p\<lparr>signal_fails := b\<rparr>) argv (init_process d) [Tick, Tick])
           = [Call_signal SIGABRT, Call_execvp file (drop 1 argv)]
       \<and> pc (run (p\<lparr>signal_fails := b\<rparr>) argv (init_process d) [Tick, Tick])
           = pc (run p argv (init_process d) [Tick, Tick])
       \<and> err (run (p\<lparr>signal_fails := b\<rparr>) argv (init_process d) [Tick, Tick])
           = err (run p argv (init_process d) [Tick, Tick])
       \<and> target (run (p\<lparr>signal_fails := b\<rparr>) argv (init_process d) [Tick, Tick])
           = target (run p argv (init_process d) [Tick, Tick])"
  using assms
  by (simp add: step_def main_step_def alive_def init_process_def Let_def split: exec_result.splits)

theorem registration_result_ignored_witness:
  "argv_at [''abort_handler'', ''/bin/true''] 1 = Some (Some ''/bin/true'')
   \<and> signal_fails (example_platform\<lparr>signal_fails := True\<rparr>)
   \<and> calls (run (example_platform\<lparr>signal_fails := True\<rparr>) [''abort_handler'', ''/bin/true'']
        (init_process SIG_DFL) [Tick, Tick])
       = [Call_signal SIGABRT, Call_execvp (Some ''/bin/true'') [''/bin/true'']]
   \<and> pc (run (example_platform\<lparr>signal_fails := True\<rparr>) [''abort_handler'', ''/bin/true'']
        (init_process SIG_DFL) [Tick, Tick]) = In_target
   \<and> err (run (example_platform\<lparr>signal_fails := True\<rparr>) [''abort_handler'', ''/bin/true'']
        (init_process SIG_DFL) [Tick, Tick]) = []"
proof -
  have a: "argv_at [''abort_handler'', ''/bin/true''] 1 = Some (Some ''/bin/true'')"
    by (simp add: argv_at_def)
  have b: "pc (run example_platform [''abort_handler'', ''/bin/true''] (init_process SIG_DFL) [Tick, Tick]) = In_target"
    and c: "err (run example_platform [''abort_handler'', ''/bin/true''] (init_process SIG_DFL) [Tick, Tick]) = []"
    by (simp_all add: proc_defs example_platform_def)
  show ?thesis
    using registration_result_ignored [OF a, where p = example_platform and b = True and d = SIG_DFL]
      a b c
    by simp
qed

text \<open>
  Claim C8: on \<^verbatim>\<open>launcher exe rest...\<close> the call made is \<^verbatim>\<open>execvp\<close> of \<open>exe\<close> with the
  vector \<open>exe # rest\<close>: the arguments after the executable's name as they were given,
  in their order, none taken out and none put in; when \<^verbatim>\<open>execvp\<close> replaces the image
  the process runs that executable with that vector.
\<close>

theorem execvp_passes_arguments:
  "calls (run p (launcher # exe # rest) (init_process d) [Tick, Tick])
     = [Call_signal SIGABRT, Call_execvp (Some exe) (exe # rest)]
   \<and> (execvp_result p (Some exe) (exe # rest) = Replaced \<longrightarrow>
        pc (run p (launcher # exe # rest) (init_process d) [Tick, Tick]) = In_target
      \<and> target (run p (launcher # exe # rest) (init_process d) [Tick, Tick]) = Some (Some exe, exe # rest))"
  by (simp add: proc_defs split: exec_result.splits)

theorem execvp_passes_arguments_witness:
  "execvp_result example_platform (Some ''/bin/sh'') [''/bin/sh'', ''-c'', ''exit 3''] = Replaced
   \<and> calls (run example_platform [''abort_handler'', ''/bin/sh'', ''-c'', ''exit 3'']
        (init_process SIG_DFL) [Tick, Tick])
       = [Call_signal SIGABRT, Call_execvp (Some ''/bin/sh'') [''/bin/sh'', ''-c'', ''exit 3'']]
   \<and> pc (run example_platform [''abort_handler'', ''/bin/sh'', ''-c'', ''exit 3'']
        (init_process SIG_DFL) [Tick, Tick]) = In_target
   \<and> target (run example_platform [''abort_handler'', ''/bin/sh'', ''-c'', ''exit 3'']
        (init_process SIG_DFL) [Tick, Tick])
       = Some (Some ''/bin/sh'', [''/bin/sh'', ''-c'', ''exit 3''])"
proof -
  have a: "execvp_result example_platform (Some ''/bin/sh'') [''/bin/sh'', ''-c'', ''exit 3''] = Replaced"
    by (simp add: example_platform_def)
  show ?thesis
    using execvp_passes_arguments [of example_platform "''abort_handler''" "''/bin/sh''"
        "[''-c'', ''exit 3'']" SIG_DFL] a
    by simp
qed

text \<open>
  Claim C10: \<^verbatim>\<open>main\<close> does not look at \<^verbatim>\<open>argc\<close>. Started with no argument, it installs
  the handler, writes nothing, and calls \<^verbatim>\<open>execvp\<close> with \<^verbatim>\<open>argv[1]\<close>, the null pointer that
  ends the vector, and with the empty vector \<^verbatim>\<open>argv + 1\<close>.
\<close>

theorem no_argument_count_check:
  "argv_at [launcher] 1 = Some None
   \<and> pc (run p [launcher] (init_process d) [Tick]) = At_execvp
   \<and> err (run p [launcher] (init_process d) [Tick]) = []
   \<and> calls (run p [launcher] (init_process d) [Tick, Tick]) = [Call_signal SIGABRT, Call_execvp None []]
   \<and> err (run p [launcher] (init_process d) [Tick, Tick]) = []"
  by (simp add: proc_defs split: exec_result.splits)

theorem no_argument_count_check_witness:
  "calls (run example_platform [''abort_handler''] (init_process SIG_DFL) [Tick, Tick])
     = [Call_signal SIGABRT, Call_execvp None []]
   \<and> pc (run example_platform [''abort_handler''] (init_process SIG_DFL) [Tick, Tick])
     = Terminated Faulted"
proof -
  have "pc (run example_platform [''abort_handler''] (init_process SIG_DFL) [Tick, Tick])
     = Terminated Faulted"
    by (simp add: proc_defs example_platform_def)
  then show ?thesis
    using no_argument_count_check [of "''abort_handler''" example_platform SIG_DFL] by simp
qed

end
